theory Spec2Isabelle
  imports Main
begin

section \<open>The Elastic driver of msticpy (msticpy/data/drivers/elastic_driver.py)\<close>

text \<open>
  A shallow embedding of the class \<open>ElasticDriver\<close>. Python names that start with an
  underscore lose it (\<open>_format_list\<close> is \<open>format_list\<close>, \<open>_CONNECT_DEFAULTS\<close> is
  \<open>CONNECT_DEFAULTS\<close>, and so on); everything else keeps its name. The module is
  taken as imported, that is, the \<open>elasticsearch\<close> package is installed and the import
  guard of lines 23 to 30 has not raised.
\<close>

subsection \<open>Python values and strings\<close>

text \<open>
  The values that connection parameters and list items take: \<open>None\<close>, booleans, unbounded
  integers and strings. A dictionary with string keys is a partial map.
\<close>

datatype pyval = PNone | PBool bool | PInt int | PStr string

type_synonym dict = "string \<rightharpoonup> pyval"

definition dq :: char where
  "dq = CHR 0x22"

text \<open>Decimal digits of a natural number, most significant first.\<close>

fun dec :: "nat \<Rightarrow> string" where
  "dec n = (if n < 10 then [''0123456789'' ! n]
            else dec (n div 10) @ [''0123456789'' ! (n mod 10)])"

declare dec.simps [simp del]

definition str_int :: "int \<Rightarrow> string" where
  "str_int i = (if i < 0 then CHR ''-'' # dec (nat (- i)) else dec (nat i))"

text \<open>
  \<open>py_str v\<close> is what the replacement field \<open>{v}\<close> of an f-string renders: \<open>format(v, '')\<close>,
  which is \<open>str(v)\<close> for these types.
\<close>

fun py_str :: "pyval \<Rightarrow> string" where
  "py_str PNone = ''None''"
| "py_str (PBool b) = (if b then ''True'' else ''False'')"
| "py_str (PInt i) = str_int i"
| "py_str (PStr s) = s"

text \<open>\<open>join sep xs\<close> is Python's \<open>sep.join(xs)\<close>.\<close>

fun join :: "string \<Rightarrow> string list \<Rightarrow> string" where
  "join sep [] = []"
| "join sep [x] = x"
| "join sep (x # y # ys) = x @ sep @ join sep (y # ys)"

subsection \<open>Parameter formatting methods\<close>

text \<open>
  \<^verbatim>\<open>fmt_list = [f'"{item}"' for item in param_list]; return ",".join(fmt_list)\<close>
\<close>

definition format_list :: "pyval list \<Rightarrow> string" where
  "format_list param_list =
     (let fmt_list = map (\<lambda>item. [dq] @ py_str item @ [dq]) param_list
      in join '','' fmt_list)"

text \<open>
  The reading of the specification's words for a list parameter, to compare
  \<open>format_list\<close> with: every item in double quotes followed by a comma, all
  concatenated, and the comma after the last item taken away.
\<close>

definition comma_separated_quoted :: "pyval list \<Rightarrow> string" where
  "comma_separated_quoted xs =
     butlast (concat (map (\<lambda>x. dq # py_str x @ [dq, CHR '','']) xs))"

text \<open>
  A reader of comma-separated double-quoted literals, for a query language without
  escapes: an opening quote, the body up to the next quote, then either the end of the
  text or a comma and one more literal. The empty text is the empty sequence.
\<close>

function read_literals :: "string \<Rightarrow> string list option" where
  "read_literals s =
     (case s of
        [] \<Rightarrow> None
      | c # cs \<Rightarrow>
          if c \<noteq> dq then None
          else (case dropWhile (\<lambda>c. c \<noteq> dq) cs of
                  [] \<Rightarrow> None
                | q # rest \<Rightarrow>
                    (case rest of
                       [] \<Rightarrow> Some [takeWhile (\<lambda>c. c \<noteq> dq) cs]
                     | d # rest' \<Rightarrow>
                         if d \<noteq> CHR '','' then None
                         else map_option ((#) (takeWhile (\<lambda>c. c \<noteq> dq) cs))
                                (read_literals rest'))))"
  by pat_completeness auto
termination
proof (relation "measure length")
  show "wf (measure length)" by simp
next
  fix s :: string and c cs q rest d rest'
  assume "s = c # cs" and "dropWhile (\<lambda>c. c \<noteq> dq) cs = q # rest" and "rest = d # rest'"
  then have "length rest' + 2 = length (dropWhile (\<lambda>c. c \<noteq> dq) cs)"
    by simp
  also have "\<dots> \<le> length cs"
    by (rule length_dropWhile_le)
  finally show "(rest', s) \<in> measure length"
    using \<open>s = c # cs\<close> by simp
qed

declare read_literals.simps [simp del]

definition read_sequence :: "string \<Rightarrow> string list option" where
  "read_sequence s = (if s = [] then Some [] else read_literals s)"


text \<open>
  \<open>datetime.isoformat\<close> belongs to Python's standard library. It is transcribed here
  from the library's reference implementation (\<open>isoformat\<close>, \<open>_format_time\<close> with the
  time specification \<open>auto\<close>, and \<open>_format_offset\<close>): the fractional part is printed only
  when the microsecond field is not zero, and an aware value has its offset appended.
  The offset of an aware value is kept in microseconds.
\<close>

record datetime =
  year :: nat
  month :: nat
  day :: nat
  hour :: nat
  minute :: nat
  second :: nat
  microsecond :: nat
  utcoffset :: "int option"

definition zfill :: "nat \<Rightarrow> string \<Rightarrow> string" where
  "zfill w s = replicate (w - length s) CHR ''0'' @ s"

definition format_time :: "nat \<Rightarrow> nat \<Rightarrow> nat \<Rightarrow> nat \<Rightarrow> string" where
  "format_time hh mm ss us =
     zfill 2 (dec hh) @ '':'' @ zfill 2 (dec mm) @ '':'' @ zfill 2 (dec ss) @
     (if us = 0 then [] else ''.'' @ zfill 6 (dec us))"

definition format_offset :: "int option \<Rightarrow> string" where
  "format_offset off =
     (case off of
        None \<Rightarrow> []
      | Some d \<Rightarrow>
          (let sign = (if d < 0 then ''-'' else ''+'');
               a = nat \<bar>d\<bar>;
               hh = a div 3600000000;
               r = a mod 3600000000;
               mm = r div 60000000;
               ss = r mod 60000000
           in sign @ zfill 2 (dec hh) @ '':'' @ zfill 2 (dec mm) @
              (if ss \<noteq> 0
               then '':'' @ zfill 2 (dec (ss div 1000000)) @
                    (if ss mod 1000000 \<noteq> 0 then ''.'' @ zfill 6 (dec (ss mod 1000000)) else [])
               else [])))"

definition isoformat :: "char \<Rightarrow> datetime \<Rightarrow> string" where
  "isoformat sep dt =
     zfill 4 (dec (year dt)) @ ''-'' @ zfill 2 (dec (month dt)) @ ''-'' @
     zfill 2 (dec (day dt)) @ [sep] @
     format_time (hour dt) (minute dt) (second dt) (microsecond dt) @
     format_offset (utcoffset dt)"

text \<open>The fields of a value that Python's \<open>datetime\<close> constructor accepts.\<close>

definition days_in_month :: "nat \<Rightarrow> nat \<Rightarrow> nat" where
  "days_in_month y m =
     (if m = 2 then (if y mod 4 = 0 \<and> (y mod 100 \<noteq> 0 \<or> y mod 400 = 0) then 29 else 28)
      else if m \<in> {4, 6, 9, 11} then 30 else 31)"

definition valid_datetime :: "datetime \<Rightarrow> bool" where
  "valid_datetime dt =
     (1 \<le> year dt \<and> year dt \<le> 9999 \<and> 1 \<le> month dt \<and> month dt \<le> 12 \<and>
      1 \<le> day dt \<and> day dt \<le> days_in_month (year dt) (month dt) \<and>
      hour dt < 24 \<and> minute dt < 60 \<and> second dt < 60 \<and> microsecond dt < 1000000 \<and>
      (case utcoffset dt of None \<Rightarrow> True | Some d \<Rightarrow> \<bar>d\<bar> < 86400000000))"

text \<open>\<^verbatim>\<open>return f'"{date_time.isoformat(sep=" ")}"'\<close>\<close>

definition format_datetime :: "datetime \<Rightarrow> string" where
  "format_datetime date_time = [dq] @ isoformat CHR '' '' date_time @ [dq]"

text \<open>
  The class constant \<open>_TIME_FORMAT\<close>, which no method reads: a double-quoted time format
  with a six-digit fraction of a second.
\<close>

definition TIME_FORMAT :: string where
  "TIME_FORMAT = [dq] @ ''%Y-%m-%d %H:%M:%S.%6N'' @ [dq]"

subsection \<open>Module and class constants\<close>

definition ELASTIC_CONNECT_ARGS :: "(string \<times> string) list" where
  "ELASTIC_CONNECT_ARGS =
     [(''host'', ''(string) The host name (the default is 'localhost').''),
      (''port'', ''(integer) The port number (the default is 8089).''),
      (''use_ssl'', ''(bool) Use SSL for accessing the service (default True)''),
      (''verify_certs'', ''(bool) Verify server cert (default True)''),
      (''username'', ''(string) The username used for authentication''),
      (''password'', ''(string) The password for specified user.'')]"

definition ELASTIC_REQD_ARGS :: "string list" where
  "ELASTIC_REQD_ARGS = [''host'', ''username'', ''password'']"

subsection \<open>Errors\<close>

text \<open>
  \<open>MsticpyUserConfigError\<close> carries the positional arguments and the title that
  \<open>_get_connect_args\<close> passes to it. \<open>UnrecognizedArgumentError\<close> is what the
  argument check raises.
\<close>

datatype error =
    UnrecognizedArgumentError
  | MsticpyUserConfigError "string list" string

subsection \<open>State\<close>

text \<open>
  Dictionaries are objects: the store maps an address to the dictionary that lives
  there. \<open>CONNECT_DEFAULTS\<close> is the class attribute \<open>_CONNECT_DEFAULTS\<close>, a reference
  that every instance shares. \<open>stdout\<close> holds the lines printed so far.
\<close>

type_synonym addr = nat

record world =
  heap :: "addr \<Rightarrow> dict"
  CONNECT_DEFAULTS :: addr
  stdout :: "string list"

text \<open>
  The world once the class body has run: the dictionary literal of lines 51 and 52 is
  allocated and bound to the class attribute.
\<close>

definition class_defined :: world where
  "class_defined =
     \<lparr>heap = (\<lambda>a. Map.empty)
               (0 := [''port'' \<mapsto> PInt 9200, ''use_ssl'' \<mapsto> PBool True,
                      ''verify_certs'' \<mapsto> PBool True]),
      CONNECT_DEFAULTS = 0,
      stdout = []\<rparr>"

text \<open>\<open>d.update(other)\<close> on the dictionary at address \<open>a\<close>: \<open>other\<close>'s entries win.\<close>

definition dict_update :: "addr \<Rightarrow> dict \<Rightarrow> world \<Rightarrow> world" where
  "dict_update a other w = w\<lparr>heap := (heap w)(a := heap w a ++ other)\<rparr>"

text \<open>
  The instance attributes that \<open>__init__\<close> assigns after the base class's initialiser
  has run. \<open>service\<close> is the reference to the client session, \<open>None\<close> while there is none.
\<close>

datatype formatter = Format_datetime | Format_list

record ElasticDriver =
  service :: "addr option"
  loaded :: bool
  connected :: bool
  debug :: pyval
  formatters :: "string \<rightharpoonup> formatter"

definition init :: "dict \<Rightarrow> ElasticDriver" where
  "init kwargs =
     \<lparr>service = None,
      loaded = True,
      connected = False,
      debug = (case kwargs ''debug'' of None \<Rightarrow> PBool False | Some v \<Rightarrow> v),
      formatters = [''datetime'' \<mapsto> Format_datetime, ''list'' \<mapsto> Format_list]\<rparr>"

subsection \<open>Reading the configuration\<close>

text \<open>
  \<open>data_provs\<close> is what \<open>get_provider_settings(config_section="DataProviders")\<close>
  returns, a dictionary from provider names to settings objects; it comes from outside
  and is an input of every call. \<open>getattr(elastic_settings, "args", {})\<close> gives the empty
  dictionary when the section is missing, since \<open>None\<close> has no attribute \<open>args\<close>.
\<close>

record ProviderSettings =
  args :: dict

definition get_config_settings :: "(string \<rightharpoonup> ProviderSettings) \<Rightarrow> dict" where
  "get_config_settings data_provs =
     (case data_provs ''Elastic'' of None \<Rightarrow> Map.empty | Some elastic_settings \<Rightarrow> args elastic_settings)"

subsection \<open>Connecting\<close>

text \<open>
  Modelled from the spec: \<open>check_kwargs\<close> of \<open>msticpy.common.utility\<close> is not among the
  sources. The specification describes it as the shared helper that rejects keyword
  names outside an allow-list, failing with \<open>UnrecognizedArgumentError\<close> when a key
  outside the recognized set is present. \<open>None\<close> means that it returned.
\<close>

definition check_kwargs :: "dict \<Rightarrow> string list \<Rightarrow> error option" where
  "check_kwargs supplied_args legal_args =
     (if dom supplied_args \<subseteq> set legal_args then None else Some UnrecognizedArgumentError)"

text \<open>
  Iterating over a Python set of strings visits its members in an order that the
  language does not fix (it follows the strings' hashes). \<open>set_order\<close> is that order:
  the list in which a set's members are visited.
\<close>

type_synonym set_order = "string set \<Rightarrow> string list"

definition iterates :: "set_order \<Rightarrow> string set \<Rightarrow> bool" where
  "iterates it S = (set (it S) = S \<and> distinct (it S))"

text \<open>
  The class \<open>MsticpyUserConfigError\<close> of \<open>msticpy.common.exceptions\<close> is not among the
  sources. Its constructor may write to the standard output when the exception is
  built (it displays the error to the user). What it writes is a parameter of the
  model: \<open>display_exception e_args title\<close> is the list of lines that building the
  exception with the positional arguments \<open>e_args\<close> and the title \<open>title\<close> prints.
\<close>

type_synonym display = "string list \<Rightarrow> string \<Rightarrow> string list"

text \<open>
  \<open>_get_connect_args\<close>. Line 115 binds \<open>cs_dict\<close> to the class attribute's dictionary
  itself, so both \<open>update\<close> calls write to that object, and the dictionary that is
  returned is that object too. An exception leaves the updates in place: the world
  is returned in both cases. On the path of lines 122 to 129 the exception is built
  before it is raised, so what its constructor prints is in the world as well.
\<close>

definition get_connect_args ::
  "display \<Rightarrow> set_order \<Rightarrow> (string \<rightharpoonup> ProviderSettings) \<Rightarrow> world \<Rightarrow> string option \<Rightarrow> dict
     \<Rightarrow> (error + addr) \<times> world" where
  "get_connect_args display_exception it data_provs w connection_str kwargs =
     (let cs_dict = CONNECT_DEFAULTS w;
          w1 = dict_update cs_dict (get_config_settings data_provs) w;
          w2 = dict_update cs_dict kwargs w1
      in case check_kwargs (heap w2 cs_dict) (map fst ELASTIC_CONNECT_ARGS) of
           Some e \<Rightarrow> (Inl e, w2)
         | None \<Rightarrow>
             (let missing_args = set ELASTIC_REQD_ARGS - dom (heap w2 cs_dict)
              in if missing_args \<noteq> {}
                 then (let e_args =
                             [''One or more connection parameters missing for Elastic connector'',
                              join '', '' (it missing_args),
                              ''Required parameters are '' @ join '', '' ELASTIC_REQD_ARGS,
                              ''All parameters:''] @
                             map (\<lambda>(arg, desc). arg @ '': '' @ desc) ELASTIC_CONNECT_ARGS;
                           title = ''no Elastic connection parameters''
                       in (Inl (MsticpyUserConfigError e_args title),
                           w2\<lparr>stdout := stdout w2 @ display_exception e_args title\<rparr>))
                 else (Inr cs_dict, w2)))"

text \<open>
  \<open>connect\<close>: the consolidated arguments are filtered to the recognized keys (the
  result is not used), and \<open>connected\<close> is printed. The lines that would open the
  session and set \<open>_connected\<close> are comments in the source.
\<close>

definition connect ::
  "display \<Rightarrow> set_order \<Rightarrow> (string \<rightharpoonup> ProviderSettings) \<Rightarrow> world \<times> ElasticDriver
     \<Rightarrow> string option \<Rightarrow> dict \<Rightarrow> (error + unit) \<times> world \<times> ElasticDriver" where
  "connect display_exception it data_provs st connection_str kwargs =
     (case st of (w, self) \<Rightarrow>
        (case get_connect_args display_exception it data_provs w connection_str kwargs of
           (Inl e, w') \<Rightarrow> (Inl e, w', self)
         | (Inr cs_dict, w') \<Rightarrow>
             (let arg_dict = heap w' cs_dict |` set (map fst ELASTIC_CONNECT_ARGS)
              in (Inr (), w'\<lparr>stdout := stdout w' @ [''connected'']\<rparr>, self))))"

subsection \<open>Querying\<close>

text \<open>\<open>query\<close>: the body is \<^verbatim>\<open>return None\<close>.\<close>

definition query ::
  "world \<times> ElasticDriver \<Rightarrow> string \<Rightarrow> 'qs option \<Rightarrow> dict \<Rightarrow> (error + pyval) \<times> world \<times> ElasticDriver" where
  "query st query_str query_source kwargs = (Inr PNone, st)"

subsection \<open>Sequences of calls\<close>

text \<open>
  A caller's session with one instance: a list of calls, each with its arguments (a
  \<open>connect\<close> call also with what the settings store holds at that moment). A caller
  that catches an exception goes on with the next call.
\<close>

datatype 'qs call =
    Connect "string \<rightharpoonup> ProviderSettings" "string option" dict
  | Query string "'qs option" dict

fun step ::
  "display \<Rightarrow> set_order \<Rightarrow> world \<times> ElasticDriver \<Rightarrow> 'qs call \<Rightarrow> world \<times> ElasticDriver" where
  "step display_exception it st (Connect data_provs connection_str kwargs) =
     snd (connect display_exception it data_provs st connection_str kwargs)"
| "step display_exception it st (Query query_str query_source kwargs) =
     snd (query st query_str query_source kwargs)"

definition run ::
  "display \<Rightarrow> set_order \<Rightarrow> world \<times> ElasticDriver \<Rightarrow> 'qs call list \<Rightarrow> world \<times> ElasticDriver" where
  "run display_exception it st calls = foldl (step display_exception it) st calls"

subsection \<open>Auxiliary definitions for the statements\<close>

text \<open>
  The dictionary that \<open>cs_dict\<close> refers to when \<open>_get_connect_args\<close> ends, by
  returning or by raising: the consolidated arguments.
\<close>

definition consolidated_args ::
  "display \<Rightarrow> set_order \<Rightarrow> (string \<rightharpoonup> ProviderSettings) \<Rightarrow> world \<Rightarrow> string option \<Rightarrow> dict
     \<Rightarrow> dict" where
  "consolidated_args display_exception it data_provs w connection_str kwargs =
     (let w' = snd (get_connect_args display_exception it data_provs w connection_str kwargs)
      in heap w' (CONNECT_DEFAULTS w'))"

text \<open>
  One order in which the subsets of the required keys can be visited, one rendering of
  an exception (its title, then its arguments, a line each), and a settings store whose
  section \<open>Elastic\<close> holds a port, a host, a user name and a password; they serve to
  evaluate the driver on concrete inputs.
\<close>

definition example_display :: display where
  "example_display e_args title = title # e_args"

definition reqd_order :: set_order where
  "reqd_order S = filter (\<lambda>k. k \<in> S) [''password'', ''host'', ''username'']"

definition example_provs :: "string \<rightharpoonup> ProviderSettings" where
  "example_provs =
     [''Elastic'' \<mapsto> \<lparr>args = [''port'' \<mapsto> PInt 9400, ''host'' \<mapsto> PStr ''h'',
                               ''username'' \<mapsto> PStr ''u'', ''password'' \<mapsto> PStr ''p'']\<rparr>]"

section \<open>Properties\<close>

subsection \<open>Formatting a list parameter\<close>

lemma format_list_Nil: "format_list [] = []"
  by (simp add: format_list_def)

lemma format_list_single: "format_list [x] = dq # py_str x @ [dq]"
  by (simp add: format_list_def)

lemma format_list_Cons2:
  "format_list (x # y # ys) = dq # py_str x @ dq # CHR '','' # format_list (y # ys)"
  by (simp add: format_list_def)

lemma csq_Cons2:
  "comma_separated_quoted (x # y # ys) = dq # py_str x @ dq # CHR '','' # comma_separated_quoted (y # ys)"
  by (simp add: comma_separated_quoted_def butlast_append)

lemma format_list_refines: "format_list xs = comma_separated_quoted xs"
proof (induction xs rule: induct_list012)
  case 1
  show ?case by (simp add: format_list_def comma_separated_quoted_def)
next
  case (2 x)
  show ?case by (simp add: format_list_def comma_separated_quoted_def butlast_append)
next
  case (3 x y zs)
  then show ?case by (simp only: format_list_Cons2 csq_Cons2)
qed

lemma read_literals_quote_free:
  "read_literals s = Some ls \<Longrightarrow> l \<in> set ls \<Longrightarrow> dq \<notin> set l"
proof (induction s arbitrary: ls rule: read_literals.induct)
  case (1 s)
  show ?case
  proof (cases s)
    case Nil
    with "1.prems" show ?thesis by (simp add: read_literals.simps)
  next
    case (Cons c cs)
    let ?body = "takeWhile (\<lambda>c. c \<noteq> dq) cs"
    have body: "dq \<notin> set ?body"
      using set_takeWhileD by fastforce
    have unf: "read_literals (c # cs) =
      (if c \<noteq> dq then None
       else (case dropWhile (\<lambda>c. c \<noteq> dq) cs of
               [] \<Rightarrow> None
             | q # rest \<Rightarrow>
                 (case rest of
                    [] \<Rightarrow> Some [?body]
                  | d # rest' \<Rightarrow>
                      if d \<noteq> CHR '','' then None
                      else map_option ((#) ?body) (read_literals rest'))))"
      by (subst read_literals.simps) simp
    from "1.prems"(1) Cons have res: "read_literals (c # cs) = Some ls" by simp
    from res unf have c: "c = dq"
      by (simp split: if_splits)
    show ?thesis
    proof (cases "dropWhile (\<lambda>c. c \<noteq> dq) cs")
      case Nil
      with res unf c show ?thesis by simp
    next
      case dw: (Cons q rest)
      show ?thesis
      proof (cases rest)
        case Nil
        with res unf c dw have "ls = [?body]" by simp
        with "1.prems"(2) body show ?thesis by simp
      next
        case r: (Cons d rest')
        with res unf c dw have d: "d = CHR '',''"
          by (simp split: if_splits)
        from res unf c dw r d
        have "map_option ((#) ?body) (read_literals rest') = Some ls"
          by simp
        then obtain ls' where
          ls': "read_literals rest' = Some ls'" "ls = ?body # ls'"
          by (cases "read_literals rest'") auto
        show ?thesis
        proof (cases "l = ?body")
          case True
          with body show ?thesis by simp
        next
          case False
          with ls' "1.prems"(2) have "l \<in> set ls'" by simp
          with "1.IH"[OF Cons _ dw r _ ls'(1)] c d show ?thesis by simp
        qed
      qed
    qed
  qed
qed

lemma read_literals_quoted:
  assumes "dq \<notin> set b"
  shows "read_literals (dq # b @ [dq]) = Some [b]"
    and "read_literals (dq # b @ dq # CHR '','' # s) = map_option ((#) b) (read_literals s)"
proof -
  have nb: "\<And>x. x \<in> set b \<Longrightarrow> x \<noteq> dq"
    using assms by auto
  have tw: "\<And>r. takeWhile (\<lambda>c. c \<noteq> dq) (b @ dq # r) = b"
    by (simp add: takeWhile_append2 [OF nb])
  have dw: "\<And>r. dropWhile (\<lambda>c. c \<noteq> dq) (b @ dq # r) = dq # r"
    by (simp add: dropWhile_append2 [OF nb])
  show "read_literals (dq # b @ [dq]) = Some [b]"
    by (simp add: read_literals.simps[of "dq # b @ [dq]"] tw dw)
  show "read_literals (dq # b @ dq # CHR '','' # s) = map_option ((#) b) (read_literals s)"
    by (simp add: read_literals.simps[of "dq # b @ dq # CHR '','' # s"] tw dw)
qed

lemma read_literals_format_list:
  "xs \<noteq> [] \<Longrightarrow> \<forall>x \<in> set xs. dq \<notin> set (py_str x) \<Longrightarrow>
     read_literals (format_list xs) = Some (map py_str xs)"
proof (induction xs rule: induct_list012)
  case 1
  then show ?case by simp
next
  case (2 x)
  then show ?case by (simp add: format_list_single read_literals_quoted)
next
  case (3 x y zs)
  then show ?case by (simp add: format_list_Cons2 read_literals_quoted)
qed

lemma format_list_eq_Nil: "format_list xs = [] \<longleftrightarrow> xs = []"
  by (induction xs rule: induct_list012) (simp_all add: format_list_Nil format_list_single format_list_Cons2)

lemma format_list_ends:
  "xs \<noteq> [] \<Longrightarrow> hd (format_list xs) = dq \<and> last (format_list xs) = dq"
proof (induction xs rule: induct_list012)
  case 1
  then show ?case by simp
next
  case (2 x)
  show ?case by (simp add: format_list_single)
next
  case (3 x y zs)
  then have "format_list (y # zs) \<noteq> []"
    by (simp add: format_list_eq_Nil)
  with 3 show ?case by (simp add: format_list_Cons2)
qed

lemma read_sequence_format_list:
  "read_sequence (format_list xs) = Some (map py_str xs) \<longleftrightarrow> (\<forall>x \<in> set xs. dq \<notin> set (py_str x))"
proof (cases "xs = []")
  case True
  then show ?thesis by (simp add: read_sequence_def format_list_Nil)
next
  case False
  then have rs: "read_sequence (format_list xs) = read_literals (format_list xs)"
    by (simp add: read_sequence_def format_list_eq_Nil)
  show ?thesis
  proof
    assume "read_sequence (format_list xs) = Some (map py_str xs)"
    with rs have "read_literals (format_list xs) = Some (map py_str xs)" by simp
    then show "\<forall>x \<in> set xs. dq \<notin> set (py_str x)"
      using read_literals_quote_free by fastforce
  next
    assume "\<forall>x \<in> set xs. dq \<notin> set (py_str x)"
    with False rs show "read_sequence (format_list xs) = Some (map py_str xs)"
      by (simp add: read_literals_format_list)
  qed
qed

lemma format_list_embeds:
  "x \<in> set xs \<Longrightarrow> \<exists>pre post. format_list xs = pre @ dq # py_str x @ dq # post"
proof (induction xs rule: induct_list012)
  case 1
  then show ?case by simp
next
  case (2 y)
  then have "format_list [y] = [] @ dq # py_str x @ dq # []"
    by (simp add: format_list_single)
  then show ?case by blast
next
  case (3 y z zs)
  show ?case
  proof (cases "x = y")
    case True
    have "format_list (y # z # zs) = [] @ dq # py_str x @ dq # (CHR '','' # format_list (z # zs))"
      using True by (simp add: format_list_Cons2)
    then show ?thesis by blast
  next
    case False
    with "3.prems" have "x \<in> set (z # zs)" by simp
    with "3.IH"(2) obtain pre post where "format_list (z # zs) = pre @ dq # py_str x @ dq # post"
      by blast
    then have "format_list (y # z # zs) = (dq # py_str y @ dq # CHR '','' # pre) @ dq # py_str x @ dq # post"
      by (simp add: format_list_Cons2)
    then show ?thesis by blast
  qed
qed

subsection \<open>Consolidating the connection parameters\<close>

lemma get_connect_args_heap:
  "heap (snd (get_connect_args disp it dp w cstr kw)) =
     (heap w)(CONNECT_DEFAULTS w := heap w (CONNECT_DEFAULTS w) ++ get_config_settings dp ++ kw)"
  "CONNECT_DEFAULTS (snd (get_connect_args disp it dp w cstr kw)) = CONNECT_DEFAULTS w"
  by (simp_all add: get_connect_args_def Let_def dict_update_def split: option.splits)

lemma get_connect_args_stdout:
  "fst (get_connect_args disp it dp w cstr kw) = Inr a \<Longrightarrow>
     stdout (snd (get_connect_args disp it dp w cstr kw)) = stdout w"
  by (simp add: get_connect_args_def Let_def dict_update_def split: option.splits if_splits)

lemma consolidated_args_overlay:
  "consolidated_args disp it dp w cstr kw = heap w (CONNECT_DEFAULTS w) ++ get_config_settings dp ++ kw"
  by (simp add: consolidated_args_def get_connect_args_heap)

lemma get_connect_args_result:
  "fst (get_connect_args disp it dp w cstr kw) =
     (let cs = heap w (CONNECT_DEFAULTS w) ++ get_config_settings dp ++ kw;
          missing = set ELASTIC_REQD_ARGS - dom cs
      in if \<not> dom cs \<subseteq> set (map fst ELASTIC_CONNECT_ARGS) then Inl UnrecognizedArgumentError
         else if missing \<noteq> {}
         then Inl (MsticpyUserConfigError
                     ([''One or more connection parameters missing for Elastic connector'',
                       join '', '' (it missing),
                       ''Required parameters are '' @ join '', '' ELASTIC_REQD_ARGS,
                       ''All parameters:''] @
                      map (\<lambda>(arg, desc). arg @ '': '' @ desc) ELASTIC_CONNECT_ARGS)
                     ''no Elastic connection parameters'')
         else Inr (CONNECT_DEFAULTS w))"
  by (simp add: get_connect_args_def Let_def check_kwargs_def dict_update_def)

lemma connect_result:
  "fst (connect disp it dp (w, self) cstr kw) =
     (case fst (get_connect_args disp it dp w cstr kw) of Inl e \<Rightarrow> Inl e | Inr a \<Rightarrow> Inr ())"
  by (simp add: connect_def Let_def split: prod.splits sum.splits)

lemma connect_world:
  "fst (snd (connect disp it dp (w, self) cstr kw)) =
     (let w' = snd (get_connect_args disp it dp w cstr kw)
      in case fst (get_connect_args disp it dp w cstr kw) of
           Inl e \<Rightarrow> w' | Inr a \<Rightarrow> w'\<lparr>stdout := stdout w' @ [''connected'']\<rparr>)"
  by (simp add: connect_def Let_def split: prod.splits sum.splits)

lemma connect_self: "snd (snd (connect disp it dp (w, self) cstr kw)) = self"
  by (simp add: connect_def Let_def split: prod.splits sum.splits)

lemma connect_class_defaults:
  "CONNECT_DEFAULTS (fst (snd (connect disp it dp (w, self) cstr kw))) = CONNECT_DEFAULTS w"
  "heap (fst (snd (connect disp it dp (w, self) cstr kw))) (CONNECT_DEFAULTS w) =
     heap w (CONNECT_DEFAULTS w) ++ get_config_settings dp ++ kw"
proof -
  show "CONNECT_DEFAULTS (fst (snd (connect disp it dp (w, self) cstr kw))) = CONNECT_DEFAULTS w"
    by (cases "fst (get_connect_args disp it dp w cstr kw)")
       (simp_all add: connect_world get_connect_args_heap Let_def)
  show "heap (fst (snd (connect disp it dp (w, self) cstr kw))) (CONNECT_DEFAULTS w) =
     heap w (CONNECT_DEFAULTS w) ++ get_config_settings dp ++ kw"
    by (cases "fst (get_connect_args disp it dp w cstr kw)")
       (simp_all add: connect_world get_connect_args_heap Let_def)
qed

lemma connect_ok:
  "fst (connect disp it dp (w, self) cstr kw) = Inr () \<longleftrightarrow>
     dom (heap w (CONNECT_DEFAULTS w) ++ get_config_settings dp ++ kw) \<subseteq> set (map fst ELASTIC_CONNECT_ARGS) \<and>
     set ELASTIC_REQD_ARGS \<subseteq> dom (heap w (CONNECT_DEFAULTS w) ++ get_config_settings dp ++ kw)"
proof -
  define cs where "cs = heap w (CONNECT_DEFAULTS w) ++ get_config_settings dp ++ kw"
  have "set ELASTIC_REQD_ARGS - dom cs = {} \<longleftrightarrow> set ELASTIC_REQD_ARGS \<subseteq> dom cs"
    by blast
  then show ?thesis
    unfolding connect_result get_connect_args_result Let_def cs_def [symmetric]
    by (simp split: if_splits)
qed

text \<open>
  A second call with the same stored settings and keyword arguments consolidates to
  the same dictionary as the first, although it starts from what the first call left
  in the class attribute.
\<close>

lemma consolidation_idempotent:
  "consolidated_args disp it dp (fst (snd (connect disp it dp (w, self) cstr kw))) cstr kw =
     consolidated_args disp it dp w cstr kw"
proof -
  let ?w1 = "fst (snd (connect disp it dp (w, self) cstr kw))"
  have "heap ?w1 (CONNECT_DEFAULTS ?w1) = heap w (CONNECT_DEFAULTS w) ++ get_config_settings dp ++ kw"
    by (simp add: connect_class_defaults)
  moreover have "\<And>d s k :: dict. d ++ s ++ k ++ s ++ k = d ++ s ++ k"
    by (rule ext) (simp add: map_add_def split: option.splits)
  ultimately show ?thesis
    by (simp add: consolidated_args_overlay)
qed

lemma iterates_reqd_order: "S \<subseteq> set ELASTIC_REQD_ARGS \<Longrightarrow> iterates reqd_order S"
  by (auto simp add: iterates_def reqd_order_def ELASTIC_REQD_ARGS_def)

lemma iterates_single: "iterates it {k} \<Longrightarrow> it {k} = [k]"
proof -
  assume "iterates it {k}"
  then have s: "set (it {k}) = {k}" and d: "distinct (it {k})"
    by (simp_all add: iterates_def)
  show ?thesis
  proof (cases "it {k}")
    case Nil
    with s show ?thesis by simp
  next
    case (Cons a as)
    with s have a: "a = k" and sub: "set as \<subseteq> {k}" by auto
    from Cons d a have "k \<notin> set as" by simp
    with sub have "as = []" by (cases as) auto
    with Cons a show ?thesis by simp
  qed
qed

lemma step_self: "snd (step disp it (w, self) c) = self"
  by (cases c) (simp_all add: connect_self query_def)

lemma run_self: "snd (run disp it st calls) = snd st"
  unfolding run_def
proof (induction calls arbitrary: st)
  case Nil
  show ?case by simp
next
  case (Cons c calls)
  have "snd (step disp it st c) = snd st"
    using step_self [of disp it "fst st" "snd st" c] by simp
  with Cons.IH [of "step disp it st c"] show ?case by simp
qed

subsection \<open>Formatting a date and time\<close>

text \<open>
  A field below \<open>10 ^ k\<close> fills exactly \<open>k\<close> places. So a naive value is rendered in
  21 characters when its microsecond field is zero and in 28 characters otherwise: the
  six-digit fraction is present exactly when the microseconds are not zero.
\<close>

lemma length_dec_le: "0 < k \<Longrightarrow> n < 10 ^ k \<Longrightarrow> length (dec n) \<le> k"
proof (induction k arbitrary: n)
  case 0
  then show ?case by simp
next
  case (Suc k)
  show ?case
  proof (cases "n < 10")
    case True
    then show ?thesis by (simp add: dec.simps [of n])
  next
    case False
    with Suc.prems have k: "0 < k"
      by (cases k) simp_all
    from Suc.prems have "n div 10 < 10 ^ k"
      by (simp add: less_mult_imp_div_less mult.commute)
    with Suc.IH k have "length (dec (n div 10)) \<le> k" by simp
    with False show ?thesis by (simp add: dec.simps [of n])
  qed
qed

lemma length_zfill_dec: "0 < k \<Longrightarrow> n < 10 ^ k \<Longrightarrow> length (zfill k (dec n)) = k"
  using length_dec_le [of k n] by (simp add: zfill_def)

lemma format_datetime_naive_length:
  assumes "valid_datetime dt" and "utcoffset dt = None"
  shows "length (format_datetime dt) = (if microsecond dt = 0 then 21 else 28)"
proof -
  have y: "length (zfill 4 (dec (year dt))) = 4"
    using assms(1) by (intro length_zfill_dec) (simp_all add: valid_datetime_def)
  have d: "day dt \<le> 31"
    using assms(1) by (simp add: valid_datetime_def days_in_month_def split: if_splits)
  have two: "length (zfill 2 (dec (month dt))) = 2" "length (zfill 2 (dec (day dt))) = 2"
    "length (zfill 2 (dec (hour dt))) = 2" "length (zfill 2 (dec (minute dt))) = 2"
    "length (zfill 2 (dec (second dt))) = 2"
    using assms(1) d by (simp_all add: length_zfill_dec valid_datetime_def)
  have us: "length (zfill 6 (dec (microsecond dt))) = 6"
    using assms(1) by (intro length_zfill_dec) (simp_all add: valid_datetime_def)
  show ?thesis
    using y two us assms(2)
    by (simp add: format_datetime_def isoformat_def format_time_def format_offset_def)
qed

lemma replicate_small:
  "replicate 1 c = [c]" "replicate 2 c = [c, c]" "replicate 3 c = [c, c, c]"
  "replicate 4 c = [c, c, c, c]" "replicate 5 c = [c, c, c, c, c]"
  by (simp_all add: numeral_eq_Suc)

text \<open>
  An aware value, at offset zero and with 1500 microseconds: the offset follows the
  fraction.
\<close>

lemma format_datetime_aware_example:
  \<open>format_datetime \<lparr>year = 2021, month = 3, day = 4, hour = 5, minute = 6, second = 7,
                    microsecond = 1500, utcoffset = Some 0\<rparr>
     = ''"2021-03-04 05:06:07.001500+00:00"''\<close>
  by (simp add: format_datetime_def isoformat_def format_time_def format_offset_def
      zfill_def dec.simps dq_def replicate_small)

section \<open>The claims\<close>

text \<open>
  Claim C1. Consolidation is an ordered overlay of three dictionaries. Whatever the
  class attribute holds when the call starts, whatever the settings store returns and
  whatever keyword arguments are given: a key of the keyword arguments has the keyword
  argument's value in the consolidated arguments; a key of the stored settings that is
  no keyword argument has the stored value; every other key has what the defaults
  dictionary held. When \<open>_get_connect_args\<close> returns, it returns that dictionary. With
  the keyword argument \<open>port = 9300\<close> and the stored settings \<open>port = 9400\<close>, \<open>host = "h"\<close>,
  \<open>username = "u"\<close>, \<open>password = "p"\<close>, on the freshly defined class, the call returns and
  the consolidated port is 9300.
\<close>

theorem C1_overrides_win:
  "(\<forall>k v. kw k = Some v \<longrightarrow> consolidated_args disp it dp w cstr kw k = Some v) \<and>
   (\<forall>k v. kw k = None \<and> get_config_settings dp k = Some v \<longrightarrow>
            consolidated_args disp it dp w cstr kw k = Some v) \<and>
   (\<forall>k. kw k = None \<and> get_config_settings dp k = None \<longrightarrow>
            consolidated_args disp it dp w cstr kw k = heap w (CONNECT_DEFAULTS w) k) \<and>
   (\<forall>a. fst (get_connect_args disp it dp w cstr kw) = Inr a \<longrightarrow>
            heap (snd (get_connect_args disp it dp w cstr kw)) a = consolidated_args disp it dp w cstr kw) \<and>
   fst (get_connect_args disp it example_provs class_defined None [''port'' \<mapsto> PInt 9300]) = Inr 0 \<and>
   consolidated_args disp it example_provs class_defined None [''port'' \<mapsto> PInt 9300] ''port''
     = Some (PInt 9300)"
proof (intro conjI allI impI)
  fix k v assume "kw k = Some v"
  then show "consolidated_args disp it dp w cstr kw k = Some v"
    by (simp add: consolidated_args_overlay)
next
  fix k v assume "kw k = None \<and> get_config_settings dp k = Some v"
  then show "consolidated_args disp it dp w cstr kw k = Some v"
    by (simp add: consolidated_args_overlay map_add_def)
next
  fix k assume "kw k = None \<and> get_config_settings dp k = None"
  then show "consolidated_args disp it dp w cstr kw k = heap w (CONNECT_DEFAULTS w) k"
    by (simp add: consolidated_args_overlay map_add_def)
next
  fix a assume "fst (get_connect_args disp it dp w cstr kw) = Inr a"
  then have "a = CONNECT_DEFAULTS w"
    by (simp add: get_connect_args_result Let_def split: if_splits)
  then show "heap (snd (get_connect_args disp it dp w cstr kw)) a = consolidated_args disp it dp w cstr kw"
    by (simp add: consolidated_args_def get_connect_args_heap)
next
  show "fst (get_connect_args disp it example_provs class_defined None [''port'' \<mapsto> PInt 9300]) = Inr 0"
    by (simp add: get_connect_args_result Let_def class_defined_def example_provs_def
        get_config_settings_def ELASTIC_REQD_ARGS_def ELASTIC_CONNECT_ARGS_def)
next
  show "consolidated_args disp it example_provs class_defined None [''port'' \<mapsto> PInt 9300] ''port''
     = Some (PInt 9300)"
    by (simp add: consolidated_args_overlay)
qed

text \<open>
  The overlay at a concrete call: the host comes from the keyword arguments, the user
  name from the stored settings, \<open>use_ssl\<close> from the defaults.
\<close>

theorem C1_overrides_win_witness:
  "consolidated_args example_display reqd_order example_provs class_defined None
     [''port'' \<mapsto> PInt 9300, ''host'' \<mapsto> PStr ''elastic.local''] ''host'' = Some (PStr ''elastic.local'') \<and>
   consolidated_args example_display reqd_order example_provs class_defined None
     [''port'' \<mapsto> PInt 9300, ''host'' \<mapsto> PStr ''elastic.local''] ''username'' = Some (PStr ''u'') \<and>
   consolidated_args example_display reqd_order example_provs class_defined None
     [''port'' \<mapsto> PInt 9300, ''host'' \<mapsto> PStr ''elastic.local''] ''use_ssl'' = Some (PBool True)"
  using C1_overrides_win [of "[''port'' \<mapsto> PInt 9300, ''host'' \<mapsto> PStr ''elastic.local'']"
      example_display reqd_order example_provs class_defined None]
  by (simp add: example_provs_def get_config_settings_def class_defined_def)

text \<open>
  Claim C2. The class attribute \<open>_CONNECT_DEFAULTS\<close> starts as the mapping of \<open>port\<close>,
  \<open>use_ssl\<close> and \<open>verify_certs\<close>, with no host. Line 115 takes no copy of it, so the first
  \<open>connect(host="h", username="u", password="p")\<close> on a fresh class (no stored settings)
  succeeds and leaves six entries in the class attribute, the host and the credentials
  among them. The next call starts from those six entries: it succeeds with no
  argument at all.
\<close>

theorem C2_defaults_mutated:
  "heap class_defined (CONNECT_DEFAULTS class_defined) ''host'' = None \<and>
   dom (heap class_defined (CONNECT_DEFAULTS class_defined)) = {''port'', ''use_ssl'', ''verify_certs''} \<and>
   fst (connect example_display reqd_order Map.empty (class_defined, init Map.empty) None
          [''host'' \<mapsto> PStr ''h'', ''username'' \<mapsto> PStr ''u'', ''password'' \<mapsto> PStr ''p'']) = Inr () \<and>
   (let w1 = fst (snd (connect example_display reqd_order Map.empty (class_defined, init Map.empty) None
          [''host'' \<mapsto> PStr ''h'', ''username'' \<mapsto> PStr ''u'', ''password'' \<mapsto> PStr ''p'']))
    in heap w1 (CONNECT_DEFAULTS w1) ''host'' = Some (PStr ''h'') \<and>
       dom (heap w1 (CONNECT_DEFAULTS w1)) =
         {''port'', ''use_ssl'', ''verify_certs'', ''host'', ''username'', ''password''} \<and>
       fst (connect example_display reqd_order Map.empty (w1, init Map.empty) None Map.empty) = Inr ())"
proof -
  let ?kw = "[''host'' \<mapsto> PStr ''h'', ''username'' \<mapsto> PStr ''u'', ''password'' \<mapsto> PStr ''p'']"
  let ?w1 = "fst (snd (connect example_display reqd_order Map.empty (class_defined, init Map.empty) None ?kw))"
  have c0: "CONNECT_DEFAULTS class_defined = 0"
    by (simp add: class_defined_def)
  have h0: "heap class_defined 0 =
      [''port'' \<mapsto> PInt 9200, ''use_ssl'' \<mapsto> PBool True, ''verify_certs'' \<mapsto> PBool True]"
    by (simp add: class_defined_def)
  have e: "get_config_settings Map.empty = Map.empty"
    by (simp add: get_config_settings_def)
  have d0: "dom (heap class_defined 0) = {''port'', ''use_ssl'', ''verify_certs''}"
    unfolding h0 by auto
  have c1: "CONNECT_DEFAULTS ?w1 = 0"
    using connect_class_defaults(1) [of example_display reqd_order Map.empty class_defined "init Map.empty" None ?kw]
    by (simp add: c0)
  have h1: "heap ?w1 0 = heap class_defined 0 ++ ?kw"
    using connect_class_defaults(2) [of example_display reqd_order Map.empty class_defined "init Map.empty" None ?kw]
    by (simp add: c0 e)
  have d1: "dom (heap ?w1 0) = {''port'', ''use_ssl'', ''verify_certs'', ''host'', ''username'', ''password''}"
    unfolding h1 dom_map_add d0 by auto
  have first: "fst (connect example_display reqd_order Map.empty (class_defined, init Map.empty) None ?kw) = Inr ()"
    unfolding connect_ok c0 e
    by (simp add: d0 ELASTIC_REQD_ARGS_def ELASTIC_CONNECT_ARGS_def)
  have second: "fst (connect example_display reqd_order Map.empty (?w1, init Map.empty) None Map.empty) = Inr ()"
    unfolding connect_ok c1 e
    by (simp add: d1 ELASTIC_REQD_ARGS_def ELASTIC_CONNECT_ARGS_def)
  have host0: "heap class_defined 0 ''host'' = None"
    unfolding h0 by simp
  have host1: "heap ?w1 0 ''host'' = Some (PStr ''h'')"
    unfolding h1 by simp
  show ?thesis
    unfolding Let_def c0 c1
    by (intro conjI host0 d0 first host1 d1 second)
qed

text \<open>
  A call whose consolidated arguments lack the host and that does not fail with
  \<open>MsticpyUserConfigError\<close>: the keyword argument \<open>index\<close> is not a recognized option, and
  the argument check comes first.
\<close>

theorem C3_counterexample:
  "''host'' \<notin> dom (consolidated_args example_display reqd_order Map.empty class_defined None [''index'' \<mapsto> PStr ''logs'']) \<and>
   fst (connect example_display reqd_order Map.empty (class_defined, init Map.empty) None [''index'' \<mapsto> PStr ''logs''])
     = Inl UnrecognizedArgumentError"
  by (simp add: connect_result get_connect_args_result Let_def consolidated_args_overlay
      class_defined_def get_config_settings_def ELASTIC_CONNECT_ARGS_def)

text \<open>
  Claim C3, as amended. Let \<open>cs\<close> be the overlay of the defaults dictionary, the stored
  settings and the keyword arguments, and \<open>missing\<close> the required keys \<open>host\<close>, \<open>username\<close>,
  \<open>password\<close> that \<open>cs\<close> lacks. When \<open>missing\<close> is not empty and every key of \<open>cs\<close> is a
  recognized option, \<open>connect\<close> fails with \<open>MsticpyUserConfigError\<close>; its second argument
  joins, with a comma and a space, the members of \<open>missing\<close>, each once, in the order in
  which the set is visited; its third argument lists the required keys; the arguments
  after \<open>All parameters:\<close> describe the six recognized options. When \<open>missing\<close> is empty,
  \<open>connect\<close> does not fail with that error, whatever the keys are.
\<close>

theorem C3_missing_required:
  fixes it dp w kw
  defines "cs \<equiv> heap w (CONNECT_DEFAULTS w) ++ get_config_settings dp ++ kw"
  defines "missing \<equiv> {''host'', ''username'', ''password''} - dom cs"
  shows "(missing \<noteq> {} \<and> iterates it missing \<and>
          dom cs \<subseteq> {''host'', ''port'', ''use_ssl'', ''verify_certs'', ''username'', ''password''} \<longrightarrow>
            (\<exists>ms. set ms = missing \<and> distinct ms \<and>
               fst (connect disp it dp (w, self) cstr kw) =
                 Inl (MsticpyUserConfigError
                   [''One or more connection parameters missing for Elastic connector'',
                    join '', '' ms,
                    ''Required parameters are host, username, password'',
                    ''All parameters:'',
                    ''host: (string) The host name (the default is 'localhost').'',
                    ''port: (integer) The port number (the default is 8089).'',
                    ''use_ssl: (bool) Use SSL for accessing the service (default True)'',
                    ''verify_certs: (bool) Verify server cert (default True)'',
                    ''username: (string) The username used for authentication'',
                    ''password: (string) The password for specified user.'']
                   ''no Elastic connection parameters''))) \<and>
         (missing = {} \<longrightarrow>
            (\<forall>a t. fst (connect disp it dp (w, self) cstr kw) \<noteq> Inl (MsticpyUserConfigError a t)))"
proof (intro conjI impI)
  assume h: "missing \<noteq> {} \<and> iterates it missing \<and>
          dom cs \<subseteq> {''host'', ''port'', ''use_ssl'', ''verify_certs'', ''username'', ''password''}"
  have m: "set ELASTIC_REQD_ARGS - dom cs = missing"
    by (simp add: missing_def ELASTIC_REQD_ARGS_def)
  have r: "dom cs \<subseteq> set (map fst ELASTIC_CONNECT_ARGS)"
    using h by (simp add: ELASTIC_CONNECT_ARGS_def)
  have "fst (connect disp it dp (w, self) cstr kw) =
                 Inl (MsticpyUserConfigError
                   [''One or more connection parameters missing for Elastic connector'',
                    join '', '' (it missing),
                    ''Required parameters are host, username, password'',
                    ''All parameters:'',
                    ''host: (string) The host name (the default is 'localhost').'',
                    ''port: (integer) The port number (the default is 8089).'',
                    ''use_ssl: (bool) Use SSL for accessing the service (default True)'',
                    ''verify_certs: (bool) Verify server cert (default True)'',
                    ''username: (string) The username used for authentication'',
                    ''password: (string) The password for specified user.'']
                   ''no Elastic connection parameters'')"
    using h r m unfolding connect_result get_connect_args_result cs_def [symmetric] Let_def
    by (simp add: ELASTIC_CONNECT_ARGS_def ELASTIC_REQD_ARGS_def)
  moreover have "set (it missing) = missing" "distinct (it missing)"
    using h by (simp_all add: iterates_def)
  ultimately show "\<exists>ms. set ms = missing \<and> distinct ms \<and>
               fst (connect disp it dp (w, self) cstr kw) =
                 Inl (MsticpyUserConfigError
                   [''One or more connection parameters missing for Elastic connector'',
                    join '', '' ms,
                    ''Required parameters are host, username, password'',
                    ''All parameters:'',
                    ''host: (string) The host name (the default is 'localhost').'',
                    ''port: (integer) The port number (the default is 8089).'',
                    ''use_ssl: (bool) Use SSL for accessing the service (default True)'',
                    ''verify_certs: (bool) Verify server cert (default True)'',
                    ''username: (string) The username used for authentication'',
                    ''password: (string) The password for specified user.'']
                   ''no Elastic connection parameters'')"
    by blast
next
  assume "missing = {}"
  then have m: "set ELASTIC_REQD_ARGS - dom cs = {}"
    by (simp add: missing_def ELASTIC_REQD_ARGS_def)
  show "\<forall>a t. fst (connect disp it dp (w, self) cstr kw) \<noteq> Inl (MsticpyUserConfigError a t)"
    using m unfolding connect_result get_connect_args_result cs_def [symmetric] Let_def
    by simp
qed

text \<open>
  The fresh class, no stored settings, only a user name given: the host and the
  password are the missing keys.
\<close>

theorem C3_missing_required_witness:
  "\<exists>ms. set ms = {''host'', ''password''} \<and> distinct ms \<and>
     fst (connect example_display reqd_order Map.empty (class_defined, init Map.empty) None [''username'' \<mapsto> PStr ''u'']) =
       Inl (MsticpyUserConfigError
         [''One or more connection parameters missing for Elastic connector'',
          join '', '' ms,
          ''Required parameters are host, username, password'',
          ''All parameters:'',
          ''host: (string) The host name (the default is 'localhost').'',
          ''port: (integer) The port number (the default is 8089).'',
          ''use_ssl: (bool) Use SSL for accessing the service (default True)'',
          ''verify_certs: (bool) Verify server cert (default True)'',
          ''username: (string) The username used for authentication'',
          ''password: (string) The password for specified user.'']
         ''no Elastic connection parameters'')"
proof -
  let ?cs = "heap class_defined (CONNECT_DEFAULTS class_defined) ++ get_config_settings Map.empty
               ++ [''username'' \<mapsto> PStr ''u'']"
  have d: "dom ?cs = {''port'', ''use_ssl'', ''verify_certs'', ''username''}"
    by (auto simp add: class_defined_def get_config_settings_def)
  have m: "{''host'', ''username'', ''password''} - dom ?cs = {''host'', ''password''}"
    unfolding d by auto
  have i: "iterates reqd_order {''host'', ''password''}"
    by (rule iterates_reqd_order) (simp add: ELASTIC_REQD_ARGS_def)
  have r: "dom ?cs \<subseteq> {''host'', ''port'', ''use_ssl'', ''verify_certs'', ''username'', ''password''}"
    unfolding d by auto
  show ?thesis
    using C3_missing_required [where w = class_defined and dp = Map.empty
        and kw = "[''username'' \<mapsto> PStr ''u'']" and it = reqd_order
        and disp = example_display and self = "init Map.empty" and cstr = None] i r
    unfolding m by simp
qed

text \<open>
  The fresh class, no stored settings, a user name and a password given and no host:
  \<open>connect\<close> fails, the host is reported missing, and the consolidated arguments hold no
  host.
\<close>

theorem C4_counterexample:
  "get_config_settings Map.empty ''host'' = None \<and>
   fst (connect example_display reqd_order Map.empty (class_defined, init Map.empty) None
          [''username'' \<mapsto> PStr ''u'', ''password'' \<mapsto> PStr ''p'']) =
     Inl (MsticpyUserConfigError
         [''One or more connection parameters missing for Elastic connector'',
          ''host'',
          ''Required parameters are host, username, password'',
          ''All parameters:'',
          ''host: (string) The host name (the default is 'localhost').'',
          ''port: (integer) The port number (the default is 8089).'',
          ''use_ssl: (bool) Use SSL for accessing the service (default True)'',
          ''verify_certs: (bool) Verify server cert (default True)'',
          ''username: (string) The username used for authentication'',
          ''password: (string) The password for specified user.'']
         ''no Elastic connection parameters'') \<and>
   consolidated_args example_display reqd_order Map.empty class_defined None
          [''username'' \<mapsto> PStr ''u'', ''password'' \<mapsto> PStr ''p''] ''host'' = None"
proof -
  let ?kw = "[''username'' \<mapsto> PStr ''u'', ''password'' \<mapsto> PStr ''p'']"
  let ?cs = "heap class_defined (CONNECT_DEFAULTS class_defined) ++ get_config_settings Map.empty ++ ?kw"
  have d: "dom ?cs = {''port'', ''use_ssl'', ''verify_certs'', ''username'', ''password''}"
    by (auto simp add: class_defined_def get_config_settings_def)
  have m: "set ELASTIC_REQD_ARGS - dom ?cs = {''host''}"
    unfolding d by (auto simp add: ELASTIC_REQD_ARGS_def)
  have r: "dom ?cs \<subseteq> set (map fst ELASTIC_CONNECT_ARGS)"
    unfolding d by (simp add: ELASTIC_CONNECT_ARGS_def)
  have o: "reqd_order {''host''} = [''host'']"
    by (simp add: reqd_order_def)
  have "fst (connect example_display reqd_order Map.empty (class_defined, init Map.empty) None ?kw) =
     Inl (MsticpyUserConfigError
         [''One or more connection parameters missing for Elastic connector'',
          ''host'',
          ''Required parameters are host, username, password'',
          ''All parameters:'',
          ''host: (string) The host name (the default is 'localhost').'',
          ''port: (integer) The port number (the default is 8089).'',
          ''use_ssl: (bool) Use SSL for accessing the service (default True)'',
          ''verify_certs: (bool) Verify server cert (default True)'',
          ''username: (string) The username used for authentication'',
          ''password: (string) The password for specified user.'']
         ''no Elastic connection parameters'')"
    using r unfolding connect_result get_connect_args_result Let_def m o
    by (simp add: ELASTIC_CONNECT_ARGS_def ELASTIC_REQD_ARGS_def)
  moreover have "get_config_settings Map.empty ''host'' = None"
    by (simp add: get_config_settings_def)
  moreover have "consolidated_args example_display reqd_order Map.empty class_defined None ?kw ''host'' = None"
    by (simp add: consolidated_args_overlay class_defined_def get_config_settings_def)
  ultimately show ?thesis by simp
qed

text \<open>
  Claim C4, as amended. The host has no default value: the defaults of the class hold
  no host, and the text \<open>the default is 'localhost'\<close> stands only in the description of
  the option. When neither the defaults dictionary, the stored settings nor the keyword
  arguments supply a host, while a user name and a password are supplied and every key
  is a recognized option, \<open>connect\<close> fails with \<open>MsticpyUserConfigError\<close>, which names
  \<open>host\<close> as the one missing key, and the consolidated arguments hold no host.
\<close>

theorem C4_host_required:
  assumes "heap w (CONNECT_DEFAULTS w) ''host'' = None"
    and "get_config_settings dp ''host'' = None"
    and "kw ''host'' = None"
    and "''username'' \<in> dom (heap w (CONNECT_DEFAULTS w)) \<union> dom (get_config_settings dp) \<union> dom kw"
    and "''password'' \<in> dom (heap w (CONNECT_DEFAULTS w)) \<union> dom (get_config_settings dp) \<union> dom kw"
    and "dom (heap w (CONNECT_DEFAULTS w)) \<union> dom (get_config_settings dp) \<union> dom kw
           \<subseteq> {''host'', ''port'', ''use_ssl'', ''verify_certs'', ''username'', ''password''}"
    and "iterates it {''host''}"
  shows "fst (connect disp it dp (w, self) cstr kw) =
     Inl (MsticpyUserConfigError
         [''One or more connection parameters missing for Elastic connector'',
          ''host'',
          ''Required parameters are host, username, password'',
          ''All parameters:'',
          ''host: (string) The host name (the default is 'localhost').'',
          ''port: (integer) The port number (the default is 8089).'',
          ''use_ssl: (bool) Use SSL for accessing the service (default True)'',
          ''verify_certs: (bool) Verify server cert (default True)'',
          ''username: (string) The username used for authentication'',
          ''password: (string) The password for specified user.'']
         ''no Elastic connection parameters'') \<and>
     consolidated_args disp it dp w cstr kw ''host'' = None \<and>
     heap class_defined (CONNECT_DEFAULTS class_defined) ''host'' = None"
proof -
  let ?cs = "heap w (CONNECT_DEFAULTS w) ++ get_config_settings dp ++ kw"
  have d: "dom ?cs = dom (heap w (CONNECT_DEFAULTS w)) \<union> dom (get_config_settings dp) \<union> dom kw"
    by auto
  have nh: "''host'' \<notin> dom ?cs"
    unfolding d using assms(1-3) by (simp add: domIff)
  have m: "set ELASTIC_REQD_ARGS - dom ?cs = {''host''}"
    using nh assms(4,5) unfolding d by (auto simp add: ELASTIC_REQD_ARGS_def)
  have r: "dom ?cs \<subseteq> set (map fst ELASTIC_CONNECT_ARGS)"
    using assms(6) unfolding d by (simp add: ELASTIC_CONNECT_ARGS_def)
  have o: "it {''host''} = [''host'']"
    using assms(7) by (rule iterates_single)
  have "fst (connect disp it dp (w, self) cstr kw) =
     Inl (MsticpyUserConfigError
         [''One or more connection parameters missing for Elastic connector'',
          ''host'',
          ''Required parameters are host, username, password'',
          ''All parameters:'',
          ''host: (string) The host name (the default is 'localhost').'',
          ''port: (integer) The port number (the default is 8089).'',
          ''use_ssl: (bool) Use SSL for accessing the service (default True)'',
          ''verify_certs: (bool) Verify server cert (default True)'',
          ''username: (string) The username used for authentication'',
          ''password: (string) The password for specified user.'']
         ''no Elastic connection parameters'')"
    using r unfolding connect_result get_connect_args_result Let_def m o
    by (simp add: ELASTIC_CONNECT_ARGS_def ELASTIC_REQD_ARGS_def)
  moreover have "consolidated_args disp it dp w cstr kw ''host'' = None"
    using nh by (simp add: consolidated_args_overlay domIff)
  moreover have "heap class_defined (CONNECT_DEFAULTS class_defined) ''host'' = None"
    by (simp add: class_defined_def)
  ultimately show ?thesis by simp
qed

text \<open>
  With the stored settings of the example, which hold a host, \<open>connect\<close> succeeds; with
  a user name, a password and a port as keyword arguments and no host, it fails.
\<close>

theorem C4_host_required_witness:
  "fst (connect example_display reqd_order example_provs (class_defined, init Map.empty) None Map.empty) = Inr () \<and>
   fst (connect example_display reqd_order Map.empty (class_defined, init Map.empty) None
          [''username'' \<mapsto> PStr ''elastic'', ''password'' \<mapsto> PStr ''secret'', ''port'' \<mapsto> PInt 9201]) =
     Inl (MsticpyUserConfigError
         [''One or more connection parameters missing for Elastic connector'',
          ''host'',
          ''Required parameters are host, username, password'',
          ''All parameters:'',
          ''host: (string) The host name (the default is 'localhost').'',
          ''port: (integer) The port number (the default is 8089).'',
          ''use_ssl: (bool) Use SSL for accessing the service (default True)'',
          ''verify_certs: (bool) Verify server cert (default True)'',
          ''username: (string) The username used for authentication'',
          ''password: (string) The password for specified user.'']
         ''no Elastic connection parameters'')"
proof -
  let ?kw = "[''username'' \<mapsto> PStr ''elastic'', ''password'' \<mapsto> PStr ''secret'', ''port'' \<mapsto> PInt 9201]"
  have i: "iterates reqd_order {''host''}"
    by (rule iterates_reqd_order) (simp add: ELASTIC_REQD_ARGS_def)
  have a: "heap class_defined (CONNECT_DEFAULTS class_defined) ''host'' = None"
      "get_config_settings Map.empty ''host'' = None" "?kw ''host'' = None"
    by (simp_all add: class_defined_def get_config_settings_def)
  have b: "''username'' \<in> dom (heap class_defined (CONNECT_DEFAULTS class_defined)) \<union> dom (get_config_settings Map.empty) \<union> dom ?kw"
     "''password'' \<in> dom (heap class_defined (CONNECT_DEFAULTS class_defined)) \<union> dom (get_config_settings Map.empty) \<union> dom ?kw"
    by simp_all
  have c: "dom (heap class_defined (CONNECT_DEFAULTS class_defined)) \<union> dom (get_config_settings Map.empty) \<union> dom ?kw
           \<subseteq> {''host'', ''port'', ''use_ssl'', ''verify_certs'', ''username'', ''password''}"
    by (auto simp add: class_defined_def get_config_settings_def)
  have ok: "fst (connect example_display reqd_order example_provs (class_defined, init Map.empty) None Map.empty) = Inr ()"
    by (simp add: connect_result get_connect_args_result Let_def class_defined_def example_provs_def
        get_config_settings_def ELASTIC_REQD_ARGS_def ELASTIC_CONNECT_ARGS_def)
  from C4_host_required [OF a b c i, of example_display "init Map.empty" None] ok show ?thesis
    by simp
qed

text \<open>
  Claim C5. A naive date and time with a whole second, 4 March 2021, 05:06:07: the
  result has no fractional part, where the claim and \<open>_TIME_FORMAT\<close> have six digits.
\<close>

theorem C5_whole_second:
  \<open>valid_datetime \<lparr>year = 2021, month = 3, day = 4, hour = 5, minute = 6, second = 7,
                   microsecond = 0, utcoffset = None\<rparr> \<and>
   format_datetime \<lparr>year = 2021, month = 3, day = 4, hour = 5, minute = 6, second = 7,
                    microsecond = 0, utcoffset = None\<rparr> = ''"2021-03-04 05:06:07"''\<close>
  by (simp add: valid_datetime_def days_in_month_def format_datetime_def isoformat_def
      format_time_def format_offset_def zfill_def dec.simps dq_def replicate_small)

text \<open>
  Claim C6. \<open>query\<close> returns \<open>None\<close> and raises nothing, for every query text, query
  source, keyword arguments and state of the world and of the instance, which it
  leaves as they are; so also after any sequence of earlier calls.
\<close>

theorem C6_query_stub:
  "query st query_str query_source kwargs = (Inr PNone, st) \<and>
   fst (query (run disp it st0 calls) query_str query_source kwargs) = Inr PNone"
  by (simp add: query_def)

text \<open>
  Claim C7. After \<open>__init__\<close> and any sequence of \<open>connect\<close> and \<open>query\<close> calls, the
  service handle is \<open>None\<close>, the connected flag is false and the loaded flag is true. No
  sequence of calls changes any instance attribute, and neither does one \<open>connect\<close>
  call, failing or not. Let \<open>cs\<close> be the overlay of the defaults dictionary, the stored
  settings and the keyword arguments. \<open>connect\<close> returns exactly when every key of \<open>cs\<close>
  is a recognized option and \<open>cs\<close> holds the three required keys; then it prints the one
  line \<open>connected\<close> and nothing else, with no further condition and no session opened.
  What is printed while a call fails is the exception constructor's doing and is not
  part of the statement.
\<close>

theorem C7_session_state_invariant:
  fixes w :: world and dp kw
  defines "cs \<equiv> heap w (CONNECT_DEFAULTS w) ++ get_config_settings dp ++ kw"
  shows
  "service (snd (run disp it (w, init kw0) calls)) = None \<and>
   \<not> connected (snd (run disp it (w, init kw0) calls)) \<and>
   loaded (snd (run disp it (w, init kw0) calls)) \<and>
   snd (run disp it (w, self) calls) = self \<and>
   snd (snd (connect disp it dp (w, self) cstr kw)) = self \<and>
   (fst (connect disp it dp (w, self) cstr kw) = Inr () \<longleftrightarrow>
      dom cs \<subseteq> {''host'', ''port'', ''use_ssl'', ''verify_certs'', ''username'', ''password''} \<and>
      {''host'', ''username'', ''password''} \<subseteq> dom cs) \<and>
   (dom cs \<subseteq> {''host'', ''port'', ''use_ssl'', ''verify_certs'', ''username'', ''password''} \<and>
    {''host'', ''username'', ''password''} \<subseteq> dom cs \<longrightarrow>
      stdout (fst (snd (connect disp it dp (w, self) cstr kw))) = stdout w @ [''connected''])"
proof -
  have ok: "fst (connect disp it dp (w, self) cstr kw) = Inr () \<longleftrightarrow>
      dom cs \<subseteq> {''host'', ''port'', ''use_ssl'', ''verify_certs'', ''username'', ''password''} \<and>
      {''host'', ''username'', ''password''} \<subseteq> dom cs"
    unfolding connect_ok cs_def
    by (simp add: ELASTIC_CONNECT_ARGS_def ELASTIC_REQD_ARGS_def)
  have out: "stdout (fst (snd (connect disp it dp (w, self) cstr kw))) = stdout w @ [''connected'']"
    if "fst (connect disp it dp (w, self) cstr kw) = Inr ()"
  proof -
    from that obtain a where a: "fst (get_connect_args disp it dp w cstr kw) = Inr a"
      by (cases "fst (get_connect_args disp it dp w cstr kw)") (simp_all add: connect_result)
    then show ?thesis
      by (simp add: connect_world get_connect_args_stdout)
  qed
  from ok out show ?thesis
    by (simp add: run_self connect_self init_def)
qed

text \<open>
  A session of four calls on a fresh class: a query, a \<open>connect\<close> with the stored
  settings of the example, which returns and prints \<open>connected\<close>, a \<open>connect\<close> that
  fails on an unrecognized argument, a query.
\<close>

theorem C7_session_state_invariant_witness:
  "fst (connect example_display reqd_order example_provs (class_defined, init Map.empty) None Map.empty)
     = Inr () \<and>
   stdout (fst (snd (connect example_display reqd_order example_provs
                       (class_defined, init Map.empty) None Map.empty))) = [''connected''] \<and>
   snd (run example_display reqd_order (class_defined, init Map.empty)
          [Query ''*'' (None :: unit option) Map.empty,
           Connect example_provs None Map.empty,
           Connect Map.empty None [''index'' \<mapsto> PStr ''logs''],
           Query ''*'' None Map.empty]) = init Map.empty"
proof -
  let ?cs = "heap class_defined (CONNECT_DEFAULTS class_defined) ++ get_config_settings example_provs
               ++ Map.empty"
  have d: "dom ?cs = {''port'', ''use_ssl'', ''verify_certs'', ''host'', ''username'', ''password''}"
    by (auto simp add: class_defined_def get_config_settings_def example_provs_def)
  have r: "dom ?cs \<subseteq> {''host'', ''port'', ''use_ssl'', ''verify_certs'', ''username'', ''password''}"
    unfolding d by auto
  have q: "{''host'', ''username'', ''password''} \<subseteq> dom ?cs"
    unfolding d by auto
  have e: "stdout class_defined = []"
    by (simp add: class_defined_def)
  show ?thesis
    using C7_session_state_invariant [where disp = example_display and it = reqd_order
        and w = class_defined and dp = example_provs and kw = Map.empty
        and self = "init Map.empty" and cstr = None and kw0 = Map.empty
        and calls = "[Query ''*'' (None :: unit option) Map.empty,
           Connect example_provs None Map.empty,
           Connect Map.empty None [''index'' \<mapsto> PStr ''logs''],
           Query ''*'' None Map.empty]"] r q e
    by simp
qed

text \<open>
  Claim C8. When the defaults dictionary, the stored settings or the keyword arguments
  hold a key outside the six recognized options, \<open>connect\<close> fails with
  \<open>UnrecognizedArgumentError\<close>. Nothing is asked of the required keys: the argument check
  comes before the check for missing keys, and \<open>MsticpyUserConfigError\<close> is not raised
  then.
\<close>

theorem C8_allow_list_first:
  assumes "k \<in> dom (heap w (CONNECT_DEFAULTS w)) \<union> dom (get_config_settings dp) \<union> dom kw"
    and "k \<notin> {''host'', ''port'', ''use_ssl'', ''verify_certs'', ''username'', ''password''}"
  shows "fst (connect disp it dp (w, self) cstr kw) = Inl UnrecognizedArgumentError"
proof -
  have "k \<in> dom (heap w (CONNECT_DEFAULTS w) ++ get_config_settings dp ++ kw)"
    using assms(1) by auto
  moreover have "k \<notin> set (map fst ELASTIC_CONNECT_ARGS)"
    using assms(2) by (simp add: ELASTIC_CONNECT_ARGS_def)
  ultimately have "\<not> dom (heap w (CONNECT_DEFAULTS w) ++ get_config_settings dp ++ kw)
      \<subseteq> set (map fst ELASTIC_CONNECT_ARGS)"
    by (auto dest: subsetD)
  then show ?thesis
    by (simp add: connect_result get_connect_args_result Let_def)
qed

text \<open>
  The fresh class, no stored settings, a user name and the unrecognized \<open>index\<close>: the
  host and the password are missing, and the failure is the unrecognized argument.
\<close>

theorem C8_allow_list_first_witness:
  "fst (connect example_display reqd_order Map.empty (class_defined, init Map.empty) None
          [''username'' \<mapsto> PStr ''u'', ''index'' \<mapsto> PStr ''logs'']) = Inl UnrecognizedArgumentError"
  using C8_allow_list_first [of "''index''" class_defined Map.empty
      "[''username'' \<mapsto> PStr ''u'', ''index'' \<mapsto> PStr ''logs'']" example_display reqd_order
      "init Map.empty" None]
  by simp

text \<open>
  Claim C9. \<open>format_list\<close> is the comma-separated concatenation of the items' string
  forms, each in double quotes: it agrees with the reading of the specification's words,
  the empty list gives the empty text, one item gives the quoted item, and a longer
  list gives the quoted first item, a comma and the rest. The output starts and ends
  with a double quote when the list is not empty, so no bracket surrounds it. The list of \<open>a\<close>, \<open>b\<close> and \<open>c\<close> gives
  \<open>"a","b","c"\<close>.
\<close>

theorem C9_format_list_joins_quoted:
  \<open>format_list xs = comma_separated_quoted xs \<and>
   format_list [] = [] \<and>
   format_list [x] = dq # py_str x @ [dq] \<and>
   format_list (x # y # ys) = dq # py_str x @ dq # CHR '','' # format_list (y # ys) \<and>
   (xs \<noteq> [] \<longrightarrow> hd (format_list xs) = dq \<and> last (format_list xs) = dq) \<and>
   format_list [PStr ''a'', PStr ''b'', PStr ''c''] = ''"a","b","c"''\<close>
proof -
  have "format_list [PStr ''a'', PStr ''b'', PStr ''c''] = ''\"a\",\"b\",\"c\"''"
    by (simp add: format_list_Cons2 format_list_single dq_def)
  then show ?thesis
    by (simp add: format_list_refines [symmetric] format_list_Nil format_list_single
        format_list_Cons2 format_list_ends)
qed

text \<open>The list of the number 7 and \<open>None\<close>: a quote at each end.\<close>

theorem C9_format_list_joins_quoted_witness:
  "hd (format_list [PInt 7, PNone]) = dq \<and> last (format_list [PInt 7, PNone]) = dq"
  using C9_format_list_joins_quoted [of "[PInt 7, PNone]"]
  by simp

text \<open>
  A one-item list whose item contains double quotes and whose output is a well-formed
  sequence of quoted literals all the same: the item \<open>a","b\<close> gives \<open>"a","b"\<close>, which
  reads as the two literals \<open>a\<close> and \<open>b\<close>.
\<close>

theorem C10_counterexample:
  \<open>dq \<in> set (py_str (PStr ''a","b'')) \<and>
   format_list [PStr ''a","b''] = ''"a","b"'' \<and>
   read_sequence (format_list [PStr ''a","b'']) = Some [''a'', ''b'']\<close>
  by (simp add: format_list_single read_sequence_def read_literals.simps dq_def)

text \<open>
  Claim C10, as amended. \<open>format_list\<close> escapes nothing. An item whose string form
  contains a double quote stands in the output as it is, between its two surrounding
  quotes, and then the output, read as a sequence of quoted literals, is not the
  sequence of the items: reading the output gives the items back exactly when no item
  contains a double quote. The one-item list of \<open>a"b\<close> gives \<open>"a"b"\<close>, which is no
  sequence of quoted literals at all. The empty list gives the empty text.
\<close>

theorem C10_format_list_no_escaping:
  \<open>(x \<in> set xs \<and> dq \<in> set (py_str x) \<longrightarrow>
      (\<exists>pre post. format_list xs = pre @ dq # py_str x @ dq # post) \<and>
      read_sequence (format_list xs) \<noteq> Some (map py_str xs)) \<and>
   (read_sequence (format_list xs) = Some (map py_str xs) \<longleftrightarrow>
      (\<forall>x \<in> set xs. dq \<notin> set (py_str x))) \<and>
   format_list [PStr ''a"b''] = ''"a"b"'' \<and>
   read_sequence ''"a"b"'' = None \<and>
   format_list [] = []\<close>
proof (intro conjI impI)
  assume h: "x \<in> set xs \<and> dq \<in> set (py_str x)"
  then show "\<exists>pre post. format_list xs = pre @ dq # py_str x @ dq # post"
    by (simp add: format_list_embeds)
  from h show "read_sequence (format_list xs) \<noteq> Some (map py_str xs)"
    unfolding read_sequence_format_list by blast
next
  show "read_sequence (format_list xs) = Some (map py_str xs) \<longleftrightarrow>
      (\<forall>x \<in> set xs. dq \<notin> set (py_str x))"
    by (rule read_sequence_format_list)
next
  show \<open>format_list [PStr ''a"b''] = ''"a"b"''\<close>
    by (simp add: format_list_single dq_def)
next
  show \<open>read_sequence ''"a"b"'' = None\<close>
    by (simp add: read_sequence_def read_literals.simps dq_def)
next
  show "format_list [] = []"
    by (rule format_list_Nil)
qed

text \<open>
  The list of \<open>a\<close> and \<open>x"y\<close>: the second item stands unescaped in the output, and the
  output does not read back as the two items.
\<close>

theorem C10_format_list_no_escaping_witness:
  \<open>(\<exists>pre post. format_list [PStr ''a'', PStr ''x"y''] = pre @ ''"x"y"'' @ post) \<and>
   read_sequence (format_list [PStr ''a'', PStr ''x"y'']) \<noteq> Some [''a'', ''x"y'']\<close>
  using C10_format_list_no_escaping [of \<open>PStr ''x"y''\<close> \<open>[PStr ''a'', PStr ''x"y'']\<close>]
  by (simp add: dq_def)

end
